theory Spec2Isabelle
  imports Main
begin

section \<open>KvantoBot Web API: the Discord OAuth relay of server.js\<close>

text \<open>
  The server has two routes: a health check and the OAuth callback, which redeems an
  authorization code at Discord's token endpoint and then reads the user's profile with
  the token it got. This theory embeds both handlers and the two helper functions
  \<open>exchangeCodeForToken\<close> and \<open>fetchDiscordUserInfo\<close>, together with the parts of the
  JavaScript runtime they rely on (truthiness, property reads, string conversion in
  template literals, \<open>URLSearchParams\<close> serialisation, \<open>Date.prototype.toISOString\<close>).

  Conventions of the model:
  \<^item> a string is a sequence of bytes (the UTF-8 encoding of the JavaScript string);
  \<^item> a number is an integer (what matters to the handlers is whether it is zero and how
    it prints; JSON numbers with a fraction or beyond \<open>10^21\<close> print differently in
    JavaScript and are outside the model);
  \<^item> an object is the list of its own properties, in insertion order, each key once;
  \<^item> a thrown exception is the left summand of a sum type;
  \<^item> \<open>fetch\<close> is a function from the request to what the awaited promise settles to, and
    every handler returns, next to its HTTP response, the list of the requests it passed
    to \<open>fetch\<close>, in order;
  \<^item> the \<open>console\<close> output is left out, but the evaluation of its arguments is not,
    since it can throw.
\<close>

subsection \<open>JavaScript values\<close>

datatype jsval =
    JUndefined
  | JNull
  | JBool bool
  | JNum int
  | JStr string
  | JArr "jsval list"
  | JObj "(string \<times> jsval) list"

text \<open>The exceptions the handlers can meet; only the message is ever read.\<close>

datatype js_error =
    Error string
  | TypeError string
  | SyntaxError string

fun message :: "js_error \<Rightarrow> string" where
  "message (Error m) = m"
| "message (TypeError m) = m"
| "message (SyntaxError m) = m"

text \<open>\<open>!v\<close> is \<open>\<not> truthy v\<close>: undefined, null, false, 0 and the empty string are falsy.\<close>

fun truthy :: "jsval \<Rightarrow> bool" where
  "truthy JUndefined = False"
| "truthy JNull = False"
| "truthy (JBool b) = b"
| "truthy (JNum n) = (n \<noteq> 0)"
| "truthy (JStr s) = (s \<noteq> [])"
| "truthy (JArr xs) = True"
| "truthy (JObj kvs) = True"

text \<open>
  \<open>v.k\<close> for the property names the program reads (\<open>code\<close>, \<open>access_token\<close>,
  \<open>error_description\<close>, \<open>error\<close>, \<open>message\<close>, \<open>username\<close>, \<open>substring\<close>): reading from
  undefined or null throws; an object yields its own property or undefined; of the other
  values only a string has one of these names, \<open>substring\<close>, on its prototype, and that
  case is \<open>log_code_prefix\<close> below. The messages are those of V8.
\<close>

definition quote :: "string \<Rightarrow> string" where
  "quote s = [CHR 0x27] @ s @ [CHR 0x27]"

fun get_prop :: "jsval \<Rightarrow> string \<Rightarrow> js_error + jsval" where
  "get_prop JUndefined k =
     Inl (TypeError (''Cannot read properties of undefined (reading '' @ quote k @ '')''))"
| "get_prop JNull k =
     Inl (TypeError (''Cannot read properties of null (reading '' @ quote k @ '')''))"
| "get_prop (JObj kvs) k = (case map_of kvs k of None \<Rightarrow> Inr JUndefined | Some v \<Rightarrow> Inr v)"
| "get_prop v k = Inr JUndefined"

text \<open>\<open>const { code } = req.body\<close>: as a property read, with the message of a destructuring.\<close>

fun destructure :: "jsval \<Rightarrow> string \<Rightarrow> string \<Rightarrow> js_error + jsval" where
  "destructure JUndefined k src =
     Inl (TypeError (''Cannot destructure property '' @ quote k @ '' of '' @ quote src
                      @ '' as it is undefined.''))"
| "destructure JNull k src =
     Inl (TypeError (''Cannot destructure property '' @ quote k @ '' of '' @ quote src
                      @ '' as it is null.''))"
| "destructure v k src = get_prop v k"

subsection \<open>String conversion\<close>

definition digit_char :: "nat \<Rightarrow> char" where
  "digit_char d = char_of (48 + d)"

fun nat_to_string :: "nat \<Rightarrow> string" where
  "nat_to_string n =
     (if n < 10 then [digit_char n] else nat_to_string (n div 10) @ [digit_char (n mod 10)])"

declare nat_to_string.simps [simp del]

definition int_to_string :: "int \<Rightarrow> string" where
  "int_to_string i = (if i < 0 then CHR ''-'' # nat_to_string (nat (- i)) else nat_to_string (nat i))"

text \<open>\<open>xs.join(sep)\<close> on strings.\<close>

fun join :: "string \<Rightarrow> string list \<Rightarrow> string" where
  "join sep [] = []"
| "join sep [x] = x"
| "join sep (x # y # ys) = x @ sep @ join sep (y # ys)"

text \<open>Collects the results of a list of computations, stopping at the first exception.\<close>

fun sequence :: "(js_error + 'a) list \<Rightarrow> js_error + 'a list" where
  "sequence [] = Inr []"
| "sequence (Inl e # rs) = Inl e"
| "sequence (Inr x # rs) = (case sequence rs of Inl e \<Rightarrow> Inl e | Inr xs \<Rightarrow> Inr (x # xs))"

text \<open>
  \<open>ToString\<close>, as a template literal applies it. An array prints its elements joined by
  commas, undefined and null elements as the empty string. A plain object prints as
  \<open>[object Object]\<close> through the inherited \<open>toString\<close>; an own property named
  \<open>toString\<close> shadows the inherited method, and as no value here is callable the
  conversion then throws.
\<close>

fun to_string :: "jsval \<Rightarrow> js_error + string" where
  "to_string JUndefined = Inr ''undefined''"
| "to_string JNull = Inr ''null''"
| "to_string (JBool b) = Inr (if b then ''true'' else ''false'')"
| "to_string (JNum n) = Inr (int_to_string n)"
| "to_string (JStr s) = Inr s"
| "to_string (JArr xs) =
     (case sequence (map (\<lambda>x. if x = JUndefined \<or> x = JNull then Inr [] else to_string x) xs) of
        Inl e \<Rightarrow> Inl e
      | Inr ss \<Rightarrow> Inr (join '','' ss))"
| "to_string (JObj kvs) =
     (if ''toString'' \<in> fst ` set kvs
      then Inl (TypeError ''Cannot convert object to primitive value'')
      else Inr ''[object Object]'')"

subsection \<open>Form encoding: \<open>URLSearchParams\<close>\<close>

text \<open>
  The \<open>application/x-www-form-urlencoded\<close> serialiser of the URL standard: a byte is
  kept when it is an ASCII letter or digit or one of \<open>* - . _\<close>, a space becomes \<open>+\<close>,
  and every other byte becomes \<open>%\<close> and its two upper-case hexadecimal digits.
\<close>

definition hex_digit :: "nat \<Rightarrow> char" where
  "hex_digit d = (if d < 10 then char_of (48 + d) else char_of (55 + d))"

definition form_unreserved :: "char \<Rightarrow> bool" where
  "form_unreserved c =
     (let n = (of_char c :: nat)
      in (48 \<le> n \<and> n \<le> 57) \<or> (65 \<le> n \<and> n \<le> 90) \<or> (97 \<le> n \<and> n \<le> 122)
         \<or> c = CHR ''*'' \<or> c = CHR ''-'' \<or> c = CHR ''.'' \<or> c = CHR ''_'')"

definition form_encode_byte :: "char \<Rightarrow> string" where
  "form_encode_byte c =
     (if form_unreserved c then [c]
      else if c = CHR '' '' then ''+''
      else [CHR ''%'', hex_digit ((of_char c :: nat) div 16), hex_digit ((of_char c :: nat) mod 16)])"

definition form_encode :: "string \<Rightarrow> string" where
  "form_encode s = concat (map form_encode_byte s)"

text \<open>
  \<open>new URLSearchParams(record)\<close> converts every value of the record to a string, in
  order; \<open>toString()\<close> joins the encoded pairs with \<open>&\<close>.
\<close>

definition URLSearchParams :: "(string \<times> jsval) list \<Rightarrow> js_error + (string \<times> string) list" where
  "URLSearchParams init =
     sequence (map (\<lambda>(k, v). case to_string v of Inl e \<Rightarrow> Inl e | Inr s \<Rightarrow> Inr (k, s)) init)"

definition URLSearchParams_toString :: "(string \<times> string) list \<Rightarrow> string" where
  "URLSearchParams_toString ps =
     join ''&'' (map (\<lambda>(k, v). form_encode k @ ''='' @ form_encode v) ps)"

subsection \<open>Outbound HTTP: \<open>fetch\<close>\<close>

record http_request =
  req_url :: string
  req_method :: string
  req_headers :: "(string \<times> string) list"
  req_body :: "string option"

text \<open>
  Of a response the helpers read two things: the status, through \<open>response.ok\<close>, and
  what \<open>await response.json()\<close> gives, which is the parsed body or the exception of the
  parser.
\<close>

record fetch_response =
  status :: nat
  json :: "js_error + jsval"

definition ok :: "fetch_response \<Rightarrow> bool" where
  "ok r = (200 \<le> status r \<and> status r \<le> 299)"

datatype fetch_outcome =
    Rejected js_error
  | Resolved fetch_response

type_synonym fetch = "http_request \<Rightarrow> fetch_outcome"

subsection \<open>Process configuration\<close>

text \<open>The variables of \<open>process.env\<close> the helpers read; an unset variable reads as undefined.\<close>

record env =
  DISCORD_CLIENT_ID :: "string option"
  DISCORD_CLIENT_SECRET :: "string option"
  DISCORD_REDIRECT_URI :: "string option"

definition env_value :: "string option \<Rightarrow> jsval" where
  "env_value x = (case x of None \<Rightarrow> JUndefined | Some s \<Rightarrow> JStr s)"

subsection \<open>The two helpers\<close>

text \<open>
  Each helper returns what the awaited call gives (the value, or the exception thrown)
  and the requests it passed to \<open>fetch\<close>.
\<close>

definition token_request :: "string \<Rightarrow> http_request" where
  "token_request form =
     \<lparr>req_url = ''https://discord.com/api/oauth2/token'',
      req_method = ''POST'',
      req_headers = [(''Content-Type'', ''application/x-www-form-urlencoded'')],
      req_body = Some form\<rparr>"

text \<open>The fields of the form, \<open>const tokenData = new URLSearchParams({...})\<close>.\<close>

definition tokenData :: "env \<Rightarrow> jsval \<Rightarrow> js_error + (string \<times> string) list" where
  "tokenData e code =
     URLSearchParams
       [(''client_id'', env_value (DISCORD_CLIENT_ID e)),
        (''client_secret'', env_value (DISCORD_CLIENT_SECRET e)),
        (''grant_type'', JStr ''authorization_code''),
        (''code'', code),
        (''redirect_uri'', env_value (DISCORD_REDIRECT_URI e))]"

definition exchangeCodeForToken ::
  "env \<Rightarrow> fetch \<Rightarrow> jsval \<Rightarrow> (js_error + jsval) \<times> http_request list" where
  "exchangeCodeForToken e fetch code =
     (case tokenData e code of
        Inl err \<Rightarrow> (Inl err, [])
      | Inr form \<Rightarrow>
          (let req = token_request (URLSearchParams_toString form) in
           case fetch req of
             Rejected err \<Rightarrow> (Inl err, [req])
           | Resolved response \<Rightarrow>
               (case json response of
                  Inl err \<Rightarrow> (Inl err, [req])
                | Inr result \<Rightarrow>
                    if \<not> ok response then
                      (case get_prop result ''error_description'' of
                         Inl err \<Rightarrow> (Inl err, [req])
                       | Inr description \<Rightarrow>
                           (case (if truthy description then Inr description
                                  else get_prop result ''error'') of
                              Inl err \<Rightarrow> (Inl err, [req])
                            | Inr v \<Rightarrow>
                                (case to_string v of
                                   Inl err \<Rightarrow> (Inl err, [req])
                                 | Inr s \<Rightarrow> (Inl (Error (''Token exchange failed: '' @ s)), [req]))))
                    else (Inr result, [req]))))"

definition profile_request :: "string \<Rightarrow> http_request" where
  "profile_request bearer =
     \<lparr>req_url = ''https://discord.com/api/v10/users/@me'',
      req_method = ''GET'',
      req_headers = [(''Authorization'', bearer)],
      req_body = None\<rparr>"

definition fetchDiscordUserInfo ::
  "fetch \<Rightarrow> jsval \<Rightarrow> (js_error + jsval) \<times> http_request list" where
  "fetchDiscordUserInfo fetch accessToken =
     (case to_string accessToken of
        Inl err \<Rightarrow> (Inl err, [])
      | Inr t \<Rightarrow>
          (let req = profile_request (''Bearer '' @ t) in
           case fetch req of
             Rejected err \<Rightarrow> (Inl err, [req])
           | Resolved response \<Rightarrow>
               (case json response of
                  Inl err \<Rightarrow> (Inl err, [req])
                | Inr result \<Rightarrow>
                    if \<not> ok response then
                      (case get_prop result ''message'' of
                         Inl err \<Rightarrow> (Inl err, [req])
                       | Inr m \<Rightarrow>
                           (case to_string m of
                              Inl err \<Rightarrow> (Inl err, [req])
                            | Inr s \<Rightarrow> (Inl (Error (''Failed to fetch user info: '' @ s)), [req])))
                    else (Inr result, [req]))))"

subsection \<open>The responses of the server\<close>

record http_response =
  res_status :: nat
  res_body :: "(string \<times> jsval) list"

text \<open>
  \<open>res.status(n).json(obj)\<close>; \<open>res.json\<close> alone answers with status 200. The body is
  \<open>JSON.stringify obj\<close>, which leaves out the properties whose value is undefined.
\<close>

definition res_json :: "nat \<Rightarrow> (string \<times> jsval) list \<Rightarrow> http_response" where
  "res_json n obj = \<lparr>res_status = n, res_body = filter (\<lambda>(k, v). v \<noteq> JUndefined) obj\<rparr>"

text \<open>The \<open>catch\<close> block of the callback handler.\<close>

definition internal_server_error :: "js_error \<Rightarrow> http_response" where
  "internal_server_error err =
     res_json 500 [(''error'', JStr ''Internal server error''), (''details'', JStr (message err))]"

subsection \<open>POST /api/auth/discord/callback\<close>

text \<open>
  \<open>code.substring(0, 10) + '...'\<close> is evaluated for the log line. Only a string has a
  \<open>substring\<close> method: on any other value the property is undefined or, on an object
  with a property of that name, a value that is not a function, and the call throws.
  The text itself goes to the log only.
\<close>

definition log_code_prefix :: "jsval \<Rightarrow> js_error + unit" where
  "log_code_prefix code =
     (case get_prop code ''substring'' of
        Inl err \<Rightarrow> Inl err
      | Inr _ \<Rightarrow>
          (case code of
             JStr s \<Rightarrow> Inr ()
           | _ \<Rightarrow> Inl (TypeError ''code.substring is not a function'')))"

definition discord_callback :: "env \<Rightarrow> fetch \<Rightarrow> jsval \<Rightarrow> http_response \<times> http_request list" where
  "discord_callback e fetch body =
     (case destructure body ''code'' ''req.body'' of
        Inl err \<Rightarrow> (internal_server_error err, [])
      | Inr code \<Rightarrow>
          if \<not> truthy code then
            (res_json 400 [(''error'', JStr ''Authorization code is required'')], [])
          else
            (case log_code_prefix code of
               Inl err \<Rightarrow> (internal_server_error err, [])
             | Inr _ \<Rightarrow>
                 (case exchangeCodeForToken e fetch code of
                    (Inl err, calls) \<Rightarrow> (internal_server_error err, calls)
                  | (Inr tokenResponse, calls) \<Rightarrow>
                      (case get_prop tokenResponse ''access_token'' of
                         Inl err \<Rightarrow> (internal_server_error err, calls)
                       | Inr access_token \<Rightarrow>
                           if \<not> truthy access_token then
                             (res_json 400 [(''error'', JStr ''Failed to get access token'')], calls)
                           else
                             (case fetchDiscordUserInfo fetch access_token of
                                (Inl err, calls') \<Rightarrow> (internal_server_error err, calls @ calls')
                              | (Inr userInfo, calls') \<Rightarrow>
                                  (case get_prop userInfo ''username'' of
                                     Inl err \<Rightarrow> (internal_server_error err, calls @ calls')
                                   | Inr _ \<Rightarrow>
                                       (res_json 200 [(''access_token'', access_token),
                                                      (''user'', userInfo)],
                                        calls @ calls')))))))"

subsection \<open>GET /api/health\<close>

text \<open>
  The time \<open>new Date()\<close> reads, by its UTC fields as \<open>getUTCFullYear\<close>, \<open>getUTCMonth\<close>
  (from 0), \<open>getUTCDate\<close>, ... give them.
\<close>

record date =
  utc_year :: int
  utc_month :: nat
  utc_date :: nat
  utc_hours :: nat
  utc_minutes :: nat
  utc_seconds :: nat
  utc_milliseconds :: nat

definition pad :: "nat \<Rightarrow> nat \<Rightarrow> string" where
  "pad w n = (let s = nat_to_string n in replicate (w - length s) CHR ''0'' @ s)"

text \<open>
  \<open>Date.prototype.toISOString\<close>: \<open>YYYY-MM-DDTHH:mm:ss.sssZ\<close>, the year with a sign and six
  digits when it is not within 0 to 9999.
\<close>

definition toISOString :: "date \<Rightarrow> string" where
  "toISOString d =
     (if 0 \<le> utc_year d \<and> utc_year d \<le> 9999 then pad 4 (nat (utc_year d))
      else (if utc_year d < 0 then ''-'' else ''+'') @ pad 6 (nat \<bar>utc_year d\<bar>))
     @ ''-'' @ pad 2 (utc_month d + 1) @ ''-'' @ pad 2 (utc_date d)
     @ ''T'' @ pad 2 (utc_hours d) @ '':'' @ pad 2 (utc_minutes d) @ '':'' @ pad 2 (utc_seconds d)
     @ ''.'' @ pad 3 (utc_milliseconds d) @ ''Z''"

definition health :: "fetch \<Rightarrow> date \<Rightarrow> http_response \<times> http_request list" where
  "health fetch now =
     (res_json 200 [(''status'', JStr ''ok''),
                    (''service'', JStr ''KvantoBot Web API''),
                    (''timestamp'', JStr (toISOString now))],
      [])"

subsection \<open>Notions used in the statements\<close>

text \<open>A date of the four-digit years, with every field in its range.\<close>

definition valid_date :: "date \<Rightarrow> bool" where
  "valid_date d =
     (0 \<le> utc_year d \<and> utc_year d \<le> 9999 \<and> utc_month d < 12 \<and> 1 \<le> utc_date d \<and> utc_date d \<le> 31
      \<and> utc_hours d < 24 \<and> utc_minutes d < 60 \<and> utc_seconds d < 60 \<and> utc_milliseconds d < 1000)"

text \<open>
  The shape of a text: \<open>shape p s\<close> holds when \<open>s\<close> has the length of the pattern \<open>p\<close>,
  a decimal digit wherever \<open>p\<close> has the letter d, and the character of \<open>p\<close> elsewhere.
\<close>

definition is_digit :: "char \<Rightarrow> bool" where
  "is_digit c = (48 \<le> (of_char c :: nat) \<and> (of_char c :: nat) \<le> 57)"

fun shape :: "string \<Rightarrow> string \<Rightarrow> bool" where
  "shape [] [] = True"
| "shape (p # ps) (c # cs) = ((if p = CHR ''d'' then is_digit c else c = p) \<and> shape ps cs)"
| "shape ps cs = False"

text \<open>The text of an unset variable in the form, and of a set one.\<close>

definition env_text :: "string option \<Rightarrow> string" where
  "env_text x = (case x of None \<Rightarrow> ''undefined'' | Some s \<Rightarrow> s)"

text \<open>How often a character occurs in a text.\<close>

definition occurrences :: "char \<Rightarrow> string \<Rightarrow> nat" where
  "occurrences c s = length (filter (\<lambda>x. x = c) s)"

text \<open>Whether a text occurs within another, as a run of consecutive characters.\<close>

fun occurs_in :: "string \<Rightarrow> string \<Rightarrow> bool" where
  "occurs_in t [] = (t = [])"
| "occurs_in t (c # cs) = (take (length t) (c # cs) = t \<or> occurs_in t cs)"

text \<open>
  A provider by what its two endpoints answer: requests to the token endpoint get the
  first answer, all others the second.
\<close>

definition provider :: "fetch_outcome \<Rightarrow> fetch_outcome \<Rightarrow> fetch" where
  "provider token_answer profile_answer req =
     (if req_url req = ''https://discord.com/api/oauth2/token'' then token_answer
      else profile_answer)"

definition example_env :: env where
  "example_env =
     \<lparr>DISCORD_CLIENT_ID = Some ''1234'',
      DISCORD_CLIENT_SECRET = Some ''s3cret'',
      DISCORD_REDIRECT_URI = Some ''http://localhost:4200/auth/callback''\<rparr>"

definition example_date :: date where
  "example_date =
     \<lparr>utc_year = 2024, utc_month = 0, utc_date = 5, utc_hours = 9, utc_minutes = 3,
      utc_seconds = 7, utc_milliseconds = 42\<rparr>"

text \<open>The values of the examples: the form of \<open>example_env\<close>, answers of the two endpoints.\<close>

definition example_form :: "string \<Rightarrow> (string \<times> string) list" where
  "example_form c =
     [(''client_id'', ''1234''),
      (''client_secret'', ''s3cret''),
      (''grant_type'', ''authorization_code''),
      (''code'', c),
      (''redirect_uri'', ''http://localhost:4200/auth/callback'')]"

definition token_answer :: "string \<Rightarrow> fetch_outcome" where
  "token_answer t = Resolved \<lparr>status = 200, json = Inr (JObj [(''access_token'', JStr t)])\<rparr>"

definition invalid_grant :: fetch_outcome where
  "invalid_grant = Resolved \<lparr>status = 400, json = Inr (JObj [(''error'', JStr ''invalid_grant'')])\<rparr>"

definition unauthorized :: fetch_outcome where
  "unauthorized =
     Resolved \<lparr>status = 401, json = Inr (JObj [(''message'', JStr ''401: Unauthorized'')])\<rparr>"

definition alice :: jsval where
  "alice = JObj [(''id'', JStr ''1''), (''username'', JStr ''alice'')]"

definition invalid_token :: fetch_outcome where
  "invalid_token =
     Resolved \<lparr>status = 401, json = Inr (JObj [(''message'', JStr ''Invalid token tok-abc'')])\<rparr>"

section \<open>Basic facts\<close>

subsection \<open>Values and the form\<close>

lemma get_prop_defined:
  "v \<noteq> JNull \<Longrightarrow> v \<noteq> JUndefined \<Longrightarrow> \<exists>u. get_prop v k = Inr u"
  by (cases v) (simp_all split: option.splits)

lemma destructure_Inr_truthy:
  "destructure body k src = Inr v \<Longrightarrow> truthy v \<Longrightarrow> \<exists>kvs. body = JObj kvs \<and> map_of kvs k = Some v"
  by (cases body) (auto split: option.splits)

lemma env_value_to_string: "to_string (env_value x) = Inr (env_text x)"
  by (simp add: env_value_def env_text_def split: option.splits)

lemma tokenData_string:
  "tokenData e (JStr c) =
     Inr [(''client_id'', env_text (DISCORD_CLIENT_ID e)),
          (''client_secret'', env_text (DISCORD_CLIENT_SECRET e)),
          (''grant_type'', ''authorization_code''),
          (''code'', c),
          (''redirect_uri'', env_text (DISCORD_REDIRECT_URI e))]"
  by (simp add: tokenData_def URLSearchParams_def env_value_to_string)

lemma example_tokenData: "tokenData example_env (JStr c) = Inr (example_form c)"
  by (simp add: tokenData_string example_env_def env_text_def example_form_def)

lemma log_code_prefix_string: "log_code_prefix (JStr c) = Inr ()"
  by (simp add: log_code_prefix_def)

lemma log_code_prefix_other:
  "truthy v \<Longrightarrow> \<forall>s. v \<noteq> JStr s \<Longrightarrow>
     log_code_prefix v = Inl (TypeError ''code.substring is not a function'')"
  by (cases v) (simp_all add: log_code_prefix_def split: option.splits)

lemma log_code_prefix_Inr: "log_code_prefix v = Inr u \<Longrightarrow> \<exists>c. v = JStr c"
  by (cases v) (simp_all add: log_code_prefix_def split: option.splits)

lemma provider_token: "provider a b (token_request f) = a"
  by (simp add: provider_def token_request_def)

lemma provider_profile: "provider a b (profile_request f) = b"
  by (simp add: provider_def profile_request_def)

subsection \<open>The token exchange, by the answer of the token endpoint\<close>

lemma exchange_not_ok:
  assumes "tokenData e code = Inr form"
    and "fetch (token_request (URLSearchParams_toString form)) = Resolved r" "\<not> ok r"
  shows "\<exists>err. exchangeCodeForToken e fetch code =
           (Inl err, [token_request (URLSearchParams_toString form)])"
  using assms by (simp add: exchangeCodeForToken_def Let_def split: sum.splits)

lemma exchange_not_ok_text:
  assumes "tokenData e code = Inr form"
    and "fetch (token_request (URLSearchParams_toString form)) = Resolved r" "\<not> ok r"
    and "json r = Inr result" "get_prop result ''error_description'' = Inr d"
    and "get_prop result ''error'' = Inr er" "to_string (if truthy d then d else er) = Inr s"
  shows "exchangeCodeForToken e fetch code =
           (Inl (Error (''Token exchange failed: '' @ s)),
            [token_request (URLSearchParams_toString form)])"
  using assms by (simp add: exchangeCodeForToken_def Let_def split: sum.splits if_splits)

lemma exchange_ok:
  assumes "tokenData e code = Inr form"
    and "fetch (token_request (URLSearchParams_toString form)) = Resolved r" "ok r"
    and "json r = Inr result"
  shows "exchangeCodeForToken e fetch code =
           (Inr result, [token_request (URLSearchParams_toString form)])"
  using assms by (simp add: exchangeCodeForToken_def Let_def)

lemma exchange_Inr:
  assumes "exchangeCodeForToken e fetch code = (Inr result, calls)"
  shows "\<exists>form r. tokenData e code = Inr form
     \<and> calls = [token_request (URLSearchParams_toString form)]
     \<and> fetch (token_request (URLSearchParams_toString form)) = Resolved r \<and> ok r
     \<and> json r = Inr result"
  using assms
  by (auto simp add: exchangeCodeForToken_def Let_def
      split: sum.splits if_splits fetch_outcome.splits)

lemma exchange_calls:
  "req \<in> set (snd (exchangeCodeForToken e fetch code)) \<Longrightarrow>
     req_url req = ''https://discord.com/api/oauth2/token''"
  by (auto simp add: exchangeCodeForToken_def Let_def token_request_def
      split: sum.splits if_splits fetch_outcome.splits)

subsection \<open>The profile read, by the answer of the profile endpoint\<close>

lemma profile_not_ok:
  assumes "to_string tok = Inr t"
    and "fetch (profile_request (''Bearer '' @ t)) = Resolved r" "\<not> ok r"
  shows "\<exists>err. fetchDiscordUserInfo fetch tok = (Inl err, [profile_request (''Bearer '' @ t)])"
  using assms by (simp add: fetchDiscordUserInfo_def Let_def split: sum.splits)

lemma profile_not_ok_text:
  assumes "to_string tok = Inr t"
    and "fetch (profile_request (''Bearer '' @ t)) = Resolved r" "\<not> ok r"
    and "json r = Inr p" "get_prop p ''message'' = Inr m" "to_string m = Inr s"
  shows "fetchDiscordUserInfo fetch tok =
           (Inl (Error (''Failed to fetch user info: '' @ s)),
            [profile_request (''Bearer '' @ t)])"
  using assms by (simp add: fetchDiscordUserInfo_def Let_def split: sum.splits)

lemma profile_ok:
  assumes "to_string tok = Inr t"
    and "fetch (profile_request (''Bearer '' @ t)) = Resolved r" "ok r"
    and "json r = Inr p"
  shows "fetchDiscordUserInfo fetch tok = (Inr p, [profile_request (''Bearer '' @ t)])"
  using assms by (simp add: fetchDiscordUserInfo_def Let_def split: sum.splits)

lemma profile_calls:
  "snd (fetchDiscordUserInfo fetch tok) = []
   \<or> (\<exists>t. to_string tok = Inr t
          \<and> snd (fetchDiscordUserInfo fetch tok) = [profile_request (''Bearer '' @ t)])"
  by (auto simp add: fetchDiscordUserInfo_def Let_def
      split: sum.splits if_splits fetch_outcome.splits)

lemma profile_result_outcome:
  assumes "to_string tok1 = Inr t1" "to_string tok2 = Inr t2"
    and "fetch1 (profile_request (''Bearer '' @ t1)) = fetch2 (profile_request (''Bearer '' @ t2))"
  shows "fst (fetchDiscordUserInfo fetch1 tok1) = fst (fetchDiscordUserInfo fetch2 tok2)"
  using assms
  by (simp add: fetchDiscordUserInfo_def Let_def split: fetch_outcome.splits sum.splits)

subsection \<open>The callback handler, stage by stage\<close>

text \<open>Past the check of the code: the code is a string that is not empty.\<close>

lemma callback_string_code:
  assumes "body = JObj kvs" "map_of kvs ''code'' = Some (JStr c)" "c \<noteq> []"
  shows "discord_callback e fetch body =
     (case exchangeCodeForToken e fetch (JStr c) of
        (Inl err, calls) \<Rightarrow> (internal_server_error err, calls)
      | (Inr tokenResponse, calls) \<Rightarrow>
          (case get_prop tokenResponse ''access_token'' of
             Inl err \<Rightarrow> (internal_server_error err, calls)
           | Inr access_token \<Rightarrow>
               if \<not> truthy access_token then
                 (res_json 400 [(''error'', JStr ''Failed to get access token'')], calls)
               else
                 (case fetchDiscordUserInfo fetch access_token of
                    (Inl err, calls') \<Rightarrow> (internal_server_error err, calls @ calls')
                  | (Inr userInfo, calls') \<Rightarrow>
                      (case get_prop userInfo ''username'' of
                         Inl err \<Rightarrow> (internal_server_error err, calls @ calls')
                       | Inr _ \<Rightarrow>
                           (res_json 200 [(''access_token'', access_token), (''user'', userInfo)],
                            calls @ calls')))))"
  using assms by (simp add: discord_callback_def log_code_prefix_string)

text \<open>Past the token exchange: the response is decided by the profile read.\<close>

lemma callback_after_token:
  assumes "body = JObj kvs" "map_of kvs ''code'' = Some (JStr c)" "c \<noteq> []"
    and "tokenData e (JStr c) = Inr form"
    and "fetch (token_request (URLSearchParams_toString form)) = Resolved r" "ok r"
    and "json r = Inr result" "get_prop result ''access_token'' = Inr tok" "truthy tok"
  shows "fst (discord_callback e fetch body) =
     (case fst (fetchDiscordUserInfo fetch tok) of
        Inl err \<Rightarrow> internal_server_error err
      | Inr userInfo \<Rightarrow>
          (case get_prop userInfo ''username'' of
             Inl err \<Rightarrow> internal_server_error err
           | Inr _ \<Rightarrow> res_json 200 [(''access_token'', tok), (''user'', userInfo)]))"
  using assms(8,9)
  by (simp add: callback_string_code [OF assms(1-3)]
      exchange_ok [where fetch = fetch, OF assms(4-7)] split: prod.splits sum.splits)

text \<open>The four responses the handler has.\<close>

lemma callback_cases:
  "(\<exists>err. fst (discord_callback e fetch body) = internal_server_error err)
   \<or> fst (discord_callback e fetch body) =
       res_json 400 [(''error'', JStr ''Authorization code is required'')]
   \<or> fst (discord_callback e fetch body) =
       res_json 400 [(''error'', JStr ''Failed to get access token'')]
   \<or> (\<exists>tok userInfo. fst (discord_callback e fetch body) =
         res_json 200 [(''access_token'', tok), (''user'', userInfo)])"
  by (auto simp add: discord_callback_def split: sum.splits prod.splits)

text \<open>Unfolding a run on the examples.\<close>

lemmas run_simps = discord_callback_def log_code_prefix_def exchangeCodeForToken_def
  fetchDiscordUserInfo_def example_tokenData provider_token provider_profile ok_def
  internal_server_error_def res_json_def Let_def token_answer_def invalid_grant_def
  unauthorized_def alice_def

section \<open>The callback handler\<close>

subsection \<open>The token endpoint refuses\<close>

text \<open>
  C1, as amended. Whenever the token endpoint answers the exchange with a status outside
  200 to 299, the handler responds with status 500 and the error text
  \<open>Internal server error\<close>, and its only outbound call is the token request: the
  profile endpoint is not called. When the body of the answer is JSON from which the
  error text can be read (\<open>error_description\<close>, or \<open>error\<close> when that is missing or
  falsy), the response is exactly \<open>error\<close> and \<open>details\<close>, the latter being
  \<open>Token exchange failed: \<close> followed by that text.
\<close>

theorem token_exchange_failure_is_internal_error:
  assumes "body = JObj kvs" "map_of kvs ''code'' = Some (JStr c)" "c \<noteq> []"
    and "tokenData e (JStr c) = Inr form"
    and "fetch (token_request (URLSearchParams_toString form)) = Resolved r" "\<not> ok r"
  shows "res_status (fst (discord_callback e fetch body)) = 500
    \<and> map_of (res_body (fst (discord_callback e fetch body))) ''error''
        = Some (JStr ''Internal server error'')
    \<and> snd (discord_callback e fetch body) = [token_request (URLSearchParams_toString form)]
    \<and> (\<forall>result d er s.
          json r = Inr result \<and> get_prop result ''error_description'' = Inr d
          \<and> get_prop result ''error'' = Inr er \<and> to_string (if truthy d then d else er) = Inr s
          \<longrightarrow> res_body (fst (discord_callback e fetch body)) =
                [(''error'', JStr ''Internal server error''),
                 (''details'', JStr (''Token exchange failed: '' @ s))])"
proof -
  obtain err where x: "exchangeCodeForToken e fetch (JStr c) =
      (Inl err, [token_request (URLSearchParams_toString form)])"
    using exchange_not_ok [where fetch = fetch, OF assms(4-6)] by blast
  have run: "discord_callback e fetch body =
      (internal_server_error err, [token_request (URLSearchParams_toString form)])"
    by (simp add: callback_string_code [OF assms(1-3)] x)
  have detail: "err = Error (''Token exchange failed: '' @ s)"
    if "json r = Inr result" "get_prop result ''error_description'' = Inr d"
       "get_prop result ''error'' = Inr er" "to_string (if truthy d then d else er) = Inr s"
    for result d er s
    using exchange_not_ok_text [where fetch = fetch, OF assms(4-6) that] x by simp
  show ?thesis
    using detail by (auto simp add: run internal_server_error_def res_json_def)
qed

text \<open>
  An instance: a 401 answer with both \<open>error\<close> and \<open>error_description\<close>; the description
  is the text forwarded.
\<close>

theorem token_exchange_failure_witness:
  "\<not> ok \<lparr>status = 401,
          json = Inr (JObj [(''error'', JStr ''invalid_client''),
                            (''error_description'', JStr ''Bad secret'')])\<rparr>
   \<and> discord_callback example_env
        (provider (Resolved \<lparr>status = 401,
                              json = Inr (JObj [(''error'', JStr ''invalid_client''),
                                                (''error_description'', JStr ''Bad secret'')])\<rparr>)
                  unauthorized)
        (JObj [(''code'', JStr ''abc'')]) =
      (\<lparr>res_status = 500,
        res_body = [(''error'', JStr ''Internal server error''),
                    (''details'', JStr ''Token exchange failed: Bad secret'')]\<rparr>,
       [token_request (URLSearchParams_toString (example_form ''abc''))])"
  using token_exchange_failure_is_internal_error
    [where body = "JObj [(''code'', JStr ''abc'')]" and kvs = "[(''code'', JStr ''abc'')]"
      and c = "''abc''" and e = example_env and form = "example_form ''abc''"
      and fetch = "provider (Resolved \<lparr>status = 401,
                              json = Inr (JObj [(''error'', JStr ''invalid_client''),
                                                (''error_description'', JStr ''Bad secret'')])\<rparr>)
                  unauthorized"
      and r = "\<lparr>status = 401,
          json = Inr (JObj [(''error'', JStr ''invalid_client''),
                            (''error_description'', JStr ''Bad secret'')])\<rparr>"]
  by (simp add: example_tokenData provider_token ok_def prod_eq_iff)

text \<open>
  C1 as stated fails: on the expired code whose exchange the token endpoint answers with
  400 and \<open>invalid_grant\<close>, the response has status 500, which is not a client error.
\<close>

theorem token_exchange_failure_not_client_error:
  "provider invalid_grant unauthorized
      (token_request (URLSearchParams_toString (example_form ''expired'')))
     = Resolved \<lparr>status = 400, json = Inr (JObj [(''error'', JStr ''invalid_grant'')])\<rparr>
   \<and> \<not> ok \<lparr>status = 400, json = Inr (JObj [(''error'', JStr ''invalid_grant'')])\<rparr>
   \<and> discord_callback example_env (provider invalid_grant unauthorized)
        (JObj [(''code'', JStr ''expired'')]) =
      (\<lparr>res_status = 500,
        res_body = [(''error'', JStr ''Internal server error''),
                    (''details'', JStr ''Token exchange failed: invalid_grant'')]\<rparr>,
       [token_request (URLSearchParams_toString (example_form ''expired''))])
   \<and> \<not> (400 \<le> res_status (fst (discord_callback example_env (provider invalid_grant unauthorized)
                                 (JObj [(''code'', JStr ''expired'')])))
        \<and> res_status (fst (discord_callback example_env (provider invalid_grant unauthorized)
                                 (JObj [(''code'', JStr ''expired'')]))) < 500)"
  by (simp add: run_simps)

subsection \<open>The order of the two calls\<close>

text \<open>
  C2. In every run of the callback handler, a request to the profile endpoint among the
  outbound calls comes second, after the token request, and the token endpoint has
  answered that one with a status from 200 to 299 and a JSON body whose \<open>access_token\<close>
  is truthy, so neither missing nor null nor the empty string; the profile request
  carries that token as its bearer. Hence there is no profile request when the exchange
  fails or gives no such token.
\<close>

theorem profile_fetch_only_after_token:
  assumes "req \<in> set (snd (discord_callback e fetch body))"
    and "req_url req = ''https://discord.com/api/v10/users/@me''"
  shows "\<exists>kvs c form r result tok t.
      body = JObj kvs \<and> map_of kvs ''code'' = Some (JStr c) \<and> c \<noteq> []
      \<and> tokenData e (JStr c) = Inr form
      \<and> fetch (token_request (URLSearchParams_toString form)) = Resolved r \<and> ok r
      \<and> json r = Inr result \<and> get_prop result ''access_token'' = Inr tok
      \<and> truthy tok \<and> tok \<noteq> JUndefined \<and> tok \<noteq> JNull \<and> tok \<noteq> JStr []
      \<and> to_string tok = Inr t
      \<and> req = profile_request (''Bearer '' @ t)
      \<and> snd (discord_callback e fetch body) =
          [token_request (URLSearchParams_toString form), req]"
proof -
  obtain code where code: "destructure body ''code'' ''req.body'' = Inr code" "truthy code"
    using assms(1) by (auto simp: discord_callback_def split: sum.splits if_splits)
  obtain u where "log_code_prefix code = Inr u"
    using assms(1) code by (auto simp: discord_callback_def split: sum.splits if_splits)
  then obtain c where c: "code = JStr c"
    using log_code_prefix_Inr by blast
  obtain kvs where body: "body = JObj kvs" "map_of kvs ''code'' = Some (JStr c)"
    using destructure_Inr_truthy [OF code] c by blast
  have ne: "c \<noteq> []"
    using code(2) c by simp
  note run = callback_string_code [OF body ne, of e fetch]
  have "req \<notin> set (snd (exchangeCodeForToken e fetch (JStr c)))"
    using exchange_calls [of req e fetch "JStr c"] assms(2) by auto
  moreover obtain x calls where x: "exchangeCodeForToken e fetch (JStr c) = (x, calls)"
    by (cases "exchangeCodeForToken e fetch (JStr c)")
  ultimately have first: "req \<notin> set calls"
    by simp
  obtain result where result: "x = Inr result"
    using assms(1) first unfolding run x by (cases x) auto
  obtain form r where ex: "tokenData e (JStr c) = Inr form"
     "calls = [token_request (URLSearchParams_toString form)]"
     "fetch (token_request (URLSearchParams_toString form)) = Resolved r" "ok r"
     "json r = Inr result"
    using exchange_Inr [OF x [unfolded result]] by blast
  obtain tok where tok: "get_prop result ''access_token'' = Inr tok" "truthy tok"
    using assms(1) first unfolding run x result by (auto split: sum.splits if_splits)
  obtain y calls' where y: "fetchDiscordUserInfo fetch tok = (y, calls')"
    by (cases "fetchDiscordUserInfo fetch tok")
  have all: "snd (discord_callback e fetch body) = calls @ calls'"
    unfolding run x result using tok y by (auto split: sum.splits)
  then have second: "req \<in> set calls'"
    using assms(1) first by simp
  then obtain t where t: "to_string tok = Inr t" "calls' = [profile_request (''Bearer '' @ t)]"
    using profile_calls [of fetch tok] y by auto
  have "tok \<noteq> JUndefined \<and> tok \<noteq> JNull \<and> tok \<noteq> JStr []"
    using tok(2) by auto
  then show ?thesis
    using body ne ex tok t all second by auto
qed

text \<open>An instance: the run that succeeds, whose second call is the profile request.\<close>

theorem profile_fetch_only_after_token_witness:
  "profile_request ''Bearer tok-abc''
     \<in> set (snd (discord_callback example_env
                  (provider (token_answer ''tok-abc'') (Resolved \<lparr>status = 200, json = Inr alice\<rparr>))
                  (JObj [(''code'', JStr ''valid123'')])))
   \<and> req_url (profile_request ''Bearer tok-abc'') = ''https://discord.com/api/v10/users/@me''
   \<and> (\<exists>kvs c form r result tok t.
        JObj [(''code'', JStr ''valid123'')] = JObj kvs
      \<and> map_of kvs ''code'' = Some (JStr c) \<and> c \<noteq> []
      \<and> tokenData example_env (JStr c) = Inr form
      \<and> provider (token_answer ''tok-abc'') (Resolved \<lparr>status = 200, json = Inr alice\<rparr>)
           (token_request (URLSearchParams_toString form)) = Resolved r \<and> ok r
      \<and> json r = Inr result \<and> get_prop result ''access_token'' = Inr tok
      \<and> truthy tok \<and> tok \<noteq> JUndefined \<and> tok \<noteq> JNull \<and> tok \<noteq> JStr []
      \<and> to_string tok = Inr t
      \<and> profile_request ''Bearer tok-abc'' = profile_request (''Bearer '' @ t)
      \<and> snd (discord_callback example_env
                  (provider (token_answer ''tok-abc'') (Resolved \<lparr>status = 200, json = Inr alice\<rparr>))
                  (JObj [(''code'', JStr ''valid123'')]))
          = [token_request (URLSearchParams_toString form), profile_request ''Bearer tok-abc''])"
proof -
  have 1: "profile_request ''Bearer tok-abc''
     \<in> set (snd (discord_callback example_env
                  (provider (token_answer ''tok-abc'') (Resolved \<lparr>status = 200, json = Inr alice\<rparr>))
                  (JObj [(''code'', JStr ''valid123'')])))"
    by (simp add: run_simps)
  have 2: "req_url (profile_request ''Bearer tok-abc'') = ''https://discord.com/api/v10/users/@me''"
    by (simp add: profile_request_def)
  show ?thesis
    using 1 2 profile_fetch_only_after_token [OF 1 2] by blast
qed

subsection \<open>No code\<close>

text \<open>
  The validation of the code. When the request has a body (any value but undefined and
  null) whose \<open>code\<close> is absent, null or the empty string, the handler responds with
  status 400 and the body \<open>{error: "Authorization code is required"}\<close>, and makes no
  outbound call.
\<close>

lemma missing_code_rejected:
  assumes "body \<noteq> JUndefined" "body \<noteq> JNull"
    and "get_prop body ''code'' = Inr JUndefined \<or> get_prop body ''code'' = Inr JNull
         \<or> get_prop body ''code'' = Inr (JStr [])"
  shows "discord_callback e fetch body =
           (\<lparr>res_status = 400,
             res_body = [(''error'', JStr ''Authorization code is required'')]\<rparr>, [])"
  using assms by (cases body) (auto simp: discord_callback_def res_json_def)

text \<open>Instances: no \<open>code\<close> at all, null, the empty string, and a body that is an array.\<close>

lemma missing_code_rejected_instances:
  "discord_callback e fetch (JObj []) =
     (\<lparr>res_status = 400, res_body = [(''error'', JStr ''Authorization code is required'')]\<rparr>, [])"
  "discord_callback e fetch (JObj [(''code'', JNull)]) =
     (\<lparr>res_status = 400, res_body = [(''error'', JStr ''Authorization code is required'')]\<rparr>, [])"
  "discord_callback e fetch (JObj [(''code'', JStr [])]) =
     (\<lparr>res_status = 400, res_body = [(''error'', JStr ''Authorization code is required'')]\<rparr>, [])"
  "discord_callback e fetch (JArr []) =
     (\<lparr>res_status = 400, res_body = [(''error'', JStr ''Authorization code is required'')]\<rparr>, [])"
  by (simp_all add: missing_code_rejected)

text \<open>
  C3. The claim asks for the 400 of the validation on every request whose \<open>code\<close> is
  absent. A request without a parsed body has no \<open>code\<close>, and \<open>req.body\<close> is undefined
  there: the destructuring \<open>const { code } = req.body\<close> throws before the check of the
  code is reached, and the handler responds with status 500 and the message of the
  TypeError in \<open>details\<close>, not with status 400 and
  \<open>{error: "Authorization code is required"}\<close>. It makes no outbound call.
\<close>

theorem missing_body_is_internal_error:
  "destructure JUndefined ''code'' ''req.body'' =
     Inl (TypeError (''Cannot destructure property '' @ quote ''code'' @ '' of ''
                     @ quote ''req.body'' @ '' as it is undefined.''))
   \<and> discord_callback example_env (provider (token_answer ''tok-abc'') unauthorized) JUndefined =
       (\<lparr>res_status = 500,
         res_body = [(''error'', JStr ''Internal server error''),
                     (''details'',
                      JStr (''Cannot destructure property '' @ quote ''code'' @ '' of ''
                            @ quote ''req.body'' @ '' as it is undefined.''))]\<rparr>, [])
   \<and> fst (discord_callback example_env (provider (token_answer ''tok-abc'') unauthorized) JUndefined)
       \<noteq> \<lparr>res_status = 400,
           res_body = [(''error'', JStr ''Authorization code is required'')]\<rparr>"
  by (simp add: discord_callback_def internal_server_error_def res_json_def)

subsection \<open>An answer without a token\<close>

text \<open>
  C4, as amended. When the token endpoint answers the exchange with a status from 200 to
  299 and a JSON body that is not null and whose \<open>access_token\<close> is missing or falsy,
  the handler responds with status 400 and the body
  \<open>{error: "Failed to get access token"}\<close>, and its only outbound call is the token
  request: the profile endpoint is not called.
\<close>

theorem no_access_token_rejected:
  assumes "body = JObj kvs" "map_of kvs ''code'' = Some (JStr c)" "c \<noteq> []"
    and "tokenData e (JStr c) = Inr form"
    and "fetch (token_request (URLSearchParams_toString form)) = Resolved r" "ok r"
    and "json r = Inr result" "get_prop result ''access_token'' = Inr tok" "\<not> truthy tok"
  shows "discord_callback e fetch body =
           (\<lparr>res_status = 400, res_body = [(''error'', JStr ''Failed to get access token'')]\<rparr>,
            [token_request (URLSearchParams_toString form)])"
  using assms(8,9)
  by (simp add: callback_string_code [OF assms(1-3)]
      exchange_ok [where fetch = fetch, OF assms(4-7)] res_json_def)

text \<open>An instance: a 200 answer whose \<open>access_token\<close> is the empty string.\<close>

theorem no_access_token_rejected_witness:
  "ok \<lparr>status = 200, json = Inr (JObj [(''access_token'', JStr [])])\<rparr>
   \<and> get_prop (JObj [(''access_token'', JStr [])]) ''access_token'' = Inr (JStr [])
   \<and> \<not> truthy (JStr [])
   \<and> discord_callback example_env (provider (token_answer []) unauthorized)
        (JObj [(''code'', JStr ''valid123'')]) =
       (\<lparr>res_status = 400, res_body = [(''error'', JStr ''Failed to get access token'')]\<rparr>,
        [token_request (URLSearchParams_toString (example_form ''valid123''))])"
  using no_access_token_rejected
    [where body = "JObj [(''code'', JStr ''valid123'')]" and kvs = "[(''code'', JStr ''valid123'')]"
      and c = "''valid123''" and e = example_env and form = "example_form ''valid123''"
      and fetch = "provider (token_answer []) unauthorized"
      and r = "\<lparr>status = 200, json = Inr (JObj [(''access_token'', JStr [])])\<rparr>"
      and result = "JObj [(''access_token'', JStr [])]" and tok = "JStr []"]
  by (simp add: example_tokenData provider_token token_answer_def ok_def)

text \<open>
  C4 as stated fails twice. On a 200 answer that is an object without \<open>access_token\<close>
  the error text of the response is \<open>Failed to get access token\<close>, not
  \<open>no access token returned\<close>. On a 200 answer whose body is JSON null, reading
  \<open>access_token\<close> throws and the handler responds with status 500.
\<close>

theorem no_access_token_message_differs:
  "ok \<lparr>status = 200, json = Inr (JObj [(''token_type'', JStr ''Bearer'')])\<rparr>
   \<and> get_prop (JObj [(''token_type'', JStr ''Bearer'')]) ''access_token'' = Inr JUndefined
   \<and> discord_callback example_env
        (provider (Resolved \<lparr>status = 200, json = Inr (JObj [(''token_type'', JStr ''Bearer'')])\<rparr>)
                  unauthorized)
        (JObj [(''code'', JStr ''valid123'')]) =
       (\<lparr>res_status = 400, res_body = [(''error'', JStr ''Failed to get access token'')]\<rparr>,
        [token_request (URLSearchParams_toString (example_form ''valid123''))])
   \<and> JStr ''Failed to get access token'' \<noteq> JStr ''no access token returned''
   \<and> ok \<lparr>status = 200, json = Inr JNull\<rparr>
   \<and> discord_callback example_env
        (provider (Resolved \<lparr>status = 200, json = Inr JNull\<rparr>) unauthorized)
        (JObj [(''code'', JStr ''valid123'')]) =
       (\<lparr>res_status = 500,
         res_body = [(''error'', JStr ''Internal server error''),
                     (''details'',
                      JStr (''Cannot read properties of null (reading ''
                            @ quote ''access_token'' @ '')''))]\<rparr>,
        [token_request (URLSearchParams_toString (example_form ''valid123''))])"
  by (simp add: run_simps)

subsection \<open>The profile endpoint refuses\<close>

text \<open>
  C5. When the token exchange has given a token and the profile endpoint answers with a
  status outside 200 to 299, the handler responds with status 500 and the error text
  \<open>Internal server error\<close>, and the body has no \<open>user\<close> field. When the answer is JSON
  with a \<open>message\<close> that can be read, the response is exactly \<open>error\<close> and \<open>details\<close>,
  the latter being \<open>Failed to fetch user info: \<close> followed by the provider's message.
\<close>

theorem profile_failure_is_internal_error:
  assumes "body = JObj kvs" "map_of kvs ''code'' = Some (JStr c)" "c \<noteq> []"
    and "tokenData e (JStr c) = Inr form"
    and "fetch (token_request (URLSearchParams_toString form)) = Resolved r" "ok r"
    and "json r = Inr result" "get_prop result ''access_token'' = Inr tok" "truthy tok"
    and "to_string tok = Inr t"
    and "fetch (profile_request (''Bearer '' @ t)) = Resolved r'" "\<not> ok r'"
  shows "res_status (fst (discord_callback e fetch body)) = 500
    \<and> map_of (res_body (fst (discord_callback e fetch body))) ''error''
        = Some (JStr ''Internal server error'')
    \<and> map_of (res_body (fst (discord_callback e fetch body))) ''user'' = None
    \<and> snd (discord_callback e fetch body) =
         [token_request (URLSearchParams_toString form), profile_request (''Bearer '' @ t)]
    \<and> (\<forall>p m s. json r' = Inr p \<and> get_prop p ''message'' = Inr m \<and> to_string m = Inr s
          \<longrightarrow> res_body (fst (discord_callback e fetch body)) =
                [(''error'', JStr ''Internal server error''),
                 (''details'', JStr (''Failed to fetch user info: '' @ s))])"
proof -
  obtain err where x: "fetchDiscordUserInfo fetch tok =
      (Inl err, [profile_request (''Bearer '' @ t)])"
    using profile_not_ok [where fetch = fetch, OF assms(10-12)] by blast
  have run: "discord_callback e fetch body =
      (internal_server_error err,
       [token_request (URLSearchParams_toString form), profile_request (''Bearer '' @ t)])"
    using assms(8,9)
    by (simp add: callback_string_code [OF assms(1-3)]
      exchange_ok [where fetch = fetch, OF assms(4-7)] x)
  have detail: "err = Error (''Failed to fetch user info: '' @ s)"
    if "json r' = Inr p" "get_prop p ''message'' = Inr m" "to_string m = Inr s" for p m s
    using profile_not_ok_text [where fetch = fetch, OF assms(10-12) that] x by simp
  show ?thesis
    using detail by (auto simp add: run internal_server_error_def res_json_def)
qed

text \<open>An instance: the token is given, the profile endpoint answers 401.\<close>

theorem profile_failure_witness:
  "ok \<lparr>status = 200, json = Inr (JObj [(''access_token'', JStr ''tok-abc'')])\<rparr>
   \<and> \<not> ok \<lparr>status = 401, json = Inr (JObj [(''message'', JStr ''401: Unauthorized'')])\<rparr>
   \<and> discord_callback example_env (provider (token_answer ''tok-abc'') unauthorized)
        (JObj [(''code'', JStr ''valid123'')]) =
       (\<lparr>res_status = 500,
         res_body = [(''error'', JStr ''Internal server error''),
                     (''details'', JStr ''Failed to fetch user info: 401: Unauthorized'')]\<rparr>,
        [token_request (URLSearchParams_toString (example_form ''valid123'')),
         profile_request ''Bearer tok-abc''])"
  using profile_failure_is_internal_error
    [where body = "JObj [(''code'', JStr ''valid123'')]" and kvs = "[(''code'', JStr ''valid123'')]"
      and c = "''valid123''" and e = example_env and form = "example_form ''valid123''"
      and fetch = "provider (token_answer ''tok-abc'') unauthorized"
      and r = "\<lparr>status = 200, json = Inr (JObj [(''access_token'', JStr ''tok-abc'')])\<rparr>"
      and result = "JObj [(''access_token'', JStr ''tok-abc'')]" and tok = "JStr ''tok-abc''"
      and t = "''tok-abc''"
      and r' = "\<lparr>status = 401, json = Inr (JObj [(''message'', JStr ''401: Unauthorized'')])\<rparr>"]
  by (simp add: example_tokenData provider_token provider_profile token_answer_def
      unauthorized_def ok_def prod_eq_iff)

subsection \<open>Success\<close>

text \<open>
  The combined result. When the token endpoint answers the exchange with a 2xx status
  and a token, and the profile endpoint answers with a 2xx status and a JSON value other
  than null, the handler responds with status 200 and a body of exactly two fields:
  \<open>access_token\<close>, the token of the first answer, and \<open>user\<close>, the whole profile of the
  second.
\<close>

lemma success_response:
  assumes "body = JObj kvs" "map_of kvs ''code'' = Some (JStr c)" "c \<noteq> []"
    and "tokenData e (JStr c) = Inr form"
    and "fetch (token_request (URLSearchParams_toString form)) = Resolved r" "ok r"
    and "json r = Inr result" "get_prop result ''access_token'' = Inr tok" "truthy tok"
    and "to_string tok = Inr t"
    and "fetch (profile_request (''Bearer '' @ t)) = Resolved r'" "ok r'"
    and "json r' = Inr profile" "profile \<noteq> JNull" "profile \<noteq> JUndefined"
  shows "discord_callback e fetch body =
           (\<lparr>res_status = 200, res_body = [(''access_token'', tok), (''user'', profile)]\<rparr>,
            [token_request (URLSearchParams_toString form), profile_request (''Bearer '' @ t)])"
proof -
  obtain u where u: "get_prop profile ''username'' = Inr u"
    using get_prop_defined [OF assms(14,15)] by blast
  have "tok \<noteq> JUndefined"
    using assms(9) by auto
  then show ?thesis
    using assms(8,9,15) u
    by (simp add: callback_string_code [OF assms(1-3)]
      exchange_ok [where fetch = fetch, OF assms(4-7)]
      profile_ok [where fetch = fetch, OF assms(10-13)] res_json_def)
qed

text \<open>
  The instance of the specification: code \<open>valid123\<close>, token \<open>tok-abc\<close>, profile
  \<open>{id: "1", username: "alice"}\<close>.
\<close>

lemma success_response_instance:
  "ok \<lparr>status = 200, json = Inr (JObj [(''access_token'', JStr ''tok-abc'')])\<rparr>
   \<and> ok \<lparr>status = 200, json = Inr alice\<rparr> \<and> alice \<noteq> JNull \<and> alice \<noteq> JUndefined
   \<and> discord_callback example_env
        (provider (token_answer ''tok-abc'') (Resolved \<lparr>status = 200, json = Inr alice\<rparr>))
        (JObj [(''code'', JStr ''valid123'')]) =
       (\<lparr>res_status = 200,
         res_body = [(''access_token'', JStr ''tok-abc''),
                     (''user'', JObj [(''id'', JStr ''1''), (''username'', JStr ''alice'')])]\<rparr>,
        [token_request (URLSearchParams_toString (example_form ''valid123'')),
         profile_request ''Bearer tok-abc''])"
  using success_response
    [where body = "JObj [(''code'', JStr ''valid123'')]" and kvs = "[(''code'', JStr ''valid123'')]"
      and c = "''valid123''" and e = example_env and form = "example_form ''valid123''"
      and fetch = "provider (token_answer ''tok-abc'') (Resolved \<lparr>status = 200, json = Inr alice\<rparr>)"
      and r = "\<lparr>status = 200, json = Inr (JObj [(''access_token'', JStr ''tok-abc'')])\<rparr>"
      and result = "JObj [(''access_token'', JStr ''tok-abc'')]" and tok = "JStr ''tok-abc''"
      and t = "''tok-abc''"
      and r' = "\<lparr>status = 200, json = Inr alice\<rparr>" and profile = alice]
  by (simp add: example_tokenData provider_token provider_profile token_answer_def ok_def alice_def)


section \<open>The token request\<close>

subsection \<open>The separators of the form\<close>

lemma of_char_lt_256: "(of_char c :: nat) < 256"
  by (cases c) simp

lemma hex_digit_not_sep: "d < 16 \<Longrightarrow> hex_digit d \<noteq> CHR ''&'' \<and> hex_digit d \<noteq> CHR ''=''"
  by (auto simp add: hex_digit_def char_of_eq_iff take_bit_eq_mod)

lemma form_encode_byte_no_sep:
  "CHR ''&'' \<notin> set (form_encode_byte c) \<and> CHR ''='' \<notin> set (form_encode_byte c)"
proof -
  have "(of_char c :: nat) div 16 < 16" "(of_char c :: nat) mod 16 < 16"
    using of_char_lt_256 [of c] by arith+
  then show ?thesis
    using hex_digit_not_sep [of "(of_char c :: nat) div 16"]
      hex_digit_not_sep [of "(of_char c :: nat) mod 16"]
    by (auto simp add: form_encode_byte_def form_unreserved_def)
qed

lemma occurrences_Nil [simp]: "occurrences c [] = 0"
  by (simp add: occurrences_def)

lemma occurrences_Cons [simp]:
  "occurrences c (x # xs) = (if x = c then 1 else 0) + occurrences c xs"
  by (simp add: occurrences_def)

lemma occurrences_append [simp]:
  "occurrences c (xs @ ys) = occurrences c xs + occurrences c ys"
  by (simp add: occurrences_def)

lemma occurrences_0: "c \<notin> set s \<Longrightarrow> occurrences c s = 0"
  by (induction s) auto

lemma form_encode_no_sep:
  "occurrences CHR ''&'' (form_encode s) = 0 \<and> occurrences CHR ''='' (form_encode s) = 0"
  using form_encode_byte_no_sep by (induction s) (simp_all add: form_encode_def occurrences_0)

lemma form_encode_names:
  "form_encode ''client_id'' = ''client_id''"
  "form_encode ''client_secret'' = ''client_secret''"
  "form_encode ''grant_type'' = ''grant_type''"
  "form_encode ''code'' = ''code''"
  "form_encode ''redirect_uri'' = ''redirect_uri''"
  "form_encode ''authorization_code'' = ''authorization_code''"
  by (simp_all add: form_encode_def form_encode_byte_def form_unreserved_def)

subsection \<open>What is sent, and what is read of the answer\<close>

text \<open>
  C7. The token exchange makes one outbound call: a POST to the token endpoint with the
  single header \<open>Content-Type: application/x-www-form-urlencoded\<close>, whose body is the
  five fields \<open>client_id\<close>, \<open>client_secret\<close>, \<open>grant_type\<close>, \<open>code\<close> and
  \<open>redirect_uri\<close> in this order, form-encoded: the identifier, the secret and the
  redirect URI are those of the process environment, the grant type is
  \<open>authorization_code\<close>, the code is the text of the one supplied (a code that has no
  text makes the exchange throw before any call). Whatever the values, the body has four
  \<open>&\<close> and five \<open>=\<close>, so exactly five fields. The body of the answer is parsed before
  the status is looked at: when the parser throws, that exception is the outcome
  whatever the status; when it gives a value, a 2xx status returns the value and any
  other status throws.
\<close>

theorem token_request_form:
  "(\<forall>c. to_string code = Inr c \<longrightarrow>
      snd (exchangeCodeForToken e fetch code) =
        [\<lparr>req_url = ''https://discord.com/api/oauth2/token'',
          req_method = ''POST'',
          req_headers = [(''Content-Type'', ''application/x-www-form-urlencoded'')],
          req_body = Some (''client_id='' @ form_encode (env_text (DISCORD_CLIENT_ID e))
                           @ ''&client_secret='' @ form_encode (env_text (DISCORD_CLIENT_SECRET e))
                           @ ''&grant_type=authorization_code''
                           @ ''&code='' @ form_encode c
                           @ ''&redirect_uri='' @ form_encode (env_text (DISCORD_REDIRECT_URI e)))\<rparr>])
   \<and> (\<forall>err. to_string code = Inl err \<longrightarrow> exchangeCodeForToken e fetch code = (Inl err, []))
   \<and> (\<forall>req form. req \<in> set (snd (exchangeCodeForToken e fetch code))
         \<and> req_body req = Some form
         \<longrightarrow> occurrences CHR ''&'' form = 4 \<and> occurrences CHR ''='' form = 5)
   \<and> (\<forall>req r err. req \<in> set (snd (exchangeCodeForToken e fetch code))
         \<and> fetch req = Resolved r \<and> json r = Inl err
         \<longrightarrow> fst (exchangeCodeForToken e fetch code) = Inl err)
   \<and> (\<forall>req r result. req \<in> set (snd (exchangeCodeForToken e fetch code))
         \<and> fetch req = Resolved r \<and> json r = Inr result
         \<longrightarrow> (ok r \<longrightarrow> fst (exchangeCodeForToken e fetch code) = Inr result)
           \<and> (\<not> ok r \<longrightarrow> (\<exists>err. fst (exchangeCodeForToken e fetch code) = Inl err)))"
proof (cases "to_string code")
  case (Inl err)
  then have "exchangeCodeForToken e fetch code = (Inl err, [])"
    by (simp add: exchangeCodeForToken_def tokenData_def URLSearchParams_def env_value_to_string)
  then show ?thesis
    using Inl by simp
next
  case (Inr c)
  let ?form = "''client_id='' @ form_encode (env_text (DISCORD_CLIENT_ID e))
                 @ ''&client_secret='' @ form_encode (env_text (DISCORD_CLIENT_SECRET e))
                 @ ''&grant_type=authorization_code''
                 @ ''&code='' @ form_encode c
                 @ ''&redirect_uri='' @ form_encode (env_text (DISCORD_REDIRECT_URI e))"
  have fields: "tokenData e code =
      Inr [(''client_id'', env_text (DISCORD_CLIENT_ID e)),
           (''client_secret'', env_text (DISCORD_CLIENT_SECRET e)),
           (''grant_type'', ''authorization_code''),
           (''code'', c),
           (''redirect_uri'', env_text (DISCORD_REDIRECT_URI e))]"
    using Inr by (simp add: tokenData_def URLSearchParams_def env_value_to_string)
  have form: "URLSearchParams_toString
        [(''client_id'', env_text (DISCORD_CLIENT_ID e)),
         (''client_secret'', env_text (DISCORD_CLIENT_SECRET e)),
         (''grant_type'', ''authorization_code''),
         (''code'', c),
         (''redirect_uri'', env_text (DISCORD_REDIRECT_URI e))] = ?form"
    by (simp add: URLSearchParams_toString_def form_encode_names)
  have calls: "snd (exchangeCodeForToken e fetch code) = [token_request ?form]"
    by (simp add: exchangeCodeForToken_def fields form Let_def
        split: fetch_outcome.splits sum.splits)
  have count: "occurrences CHR ''&'' ?form = 4 \<and> occurrences CHR ''='' ?form = 5"
    by (simp add: form_encode_no_sep)
  have parse: "fst (exchangeCodeForToken e fetch code) = Inl err"
    if "fetch (token_request ?form) = Resolved r" "json r = Inl err" for r err
    using that by (simp add: exchangeCodeForToken_def fields form Let_def)
  have good: "fst (exchangeCodeForToken e fetch code) = Inr result"
    if "fetch (token_request ?form) = Resolved r" "json r = Inr result" "ok r" for r result
    using that by (simp add: exchangeCodeForToken_def fields form Let_def)
  have bad: "\<exists>err. fst (exchangeCodeForToken e fetch code) = Inl err"
    if "fetch (token_request ?form) = Resolved r" "json r = Inr result" "\<not> ok r" for r result
    using that
    by (simp add: exchangeCodeForToken_def fields form Let_def split: sum.splits)
  have body: "form = ?form"
    if "req \<in> set (snd (exchangeCodeForToken e fetch code))" "req_body req = Some form"
    for req form
    using that by (simp add: calls token_request_def)
  have req: "req = token_request ?form"
    if "req \<in> set (snd (exchangeCodeForToken e fetch code))" for req
    using that by (simp add: calls)
  have 1: "\<forall>c'. to_string code = Inr c' \<longrightarrow>
      snd (exchangeCodeForToken e fetch code) =
        [\<lparr>req_url = ''https://discord.com/api/oauth2/token'',
          req_method = ''POST'',
          req_headers = [(''Content-Type'', ''application/x-www-form-urlencoded'')],
          req_body = Some (''client_id='' @ form_encode (env_text (DISCORD_CLIENT_ID e))
                           @ ''&client_secret='' @ form_encode (env_text (DISCORD_CLIENT_SECRET e))
                           @ ''&grant_type=authorization_code''
                           @ ''&code='' @ form_encode c'
                           @ ''&redirect_uri='' @ form_encode (env_text (DISCORD_REDIRECT_URI e)))\<rparr>]"
    using Inr by (simp add: calls token_request_def)
  have 2: "\<forall>err. to_string code = Inl err \<longrightarrow> exchangeCodeForToken e fetch code = (Inl err, [])"
    using Inr by simp
  have 3: "\<forall>req form. req \<in> set (snd (exchangeCodeForToken e fetch code))
         \<and> req_body req = Some form
         \<longrightarrow> occurrences CHR ''&'' form = 4 \<and> occurrences CHR ''='' form = 5"
    using body count by blast
  have 4: "\<forall>req r err. req \<in> set (snd (exchangeCodeForToken e fetch code))
         \<and> fetch req = Resolved r \<and> json r = Inl err
         \<longrightarrow> fst (exchangeCodeForToken e fetch code) = Inl err"
    using req parse by blast
  have 5: "\<forall>req r result. req \<in> set (snd (exchangeCodeForToken e fetch code))
         \<and> fetch req = Resolved r \<and> json r = Inr result
         \<longrightarrow> (ok r \<longrightarrow> fst (exchangeCodeForToken e fetch code) = Inr result)
           \<and> (\<not> ok r \<longrightarrow> (\<exists>err. fst (exchangeCodeForToken e fetch code) = Inl err))"
    using req good bad by blast
  show ?thesis
    using 1 2 3 4 5 by blast
qed

text \<open>
  An instance: a code with a space, and a 502 answer whose body is not JSON; the
  parser's exception is what the exchange throws.
\<close>

theorem token_request_form_witness:
  "snd (exchangeCodeForToken example_env
          (provider (Resolved \<lparr>status = 502, json = Inl (SyntaxError ''Unexpected token <'')\<rparr>)
                    unauthorized)
          (JStr ''valid 123'')) =
     [\<lparr>req_url = ''https://discord.com/api/oauth2/token'',
       req_method = ''POST'',
       req_headers = [(''Content-Type'', ''application/x-www-form-urlencoded'')],
       req_body = Some ''client_id=1234&client_secret=s3cret&grant_type=authorization_code&code=valid+123&redirect_uri=http%3A%2F%2Flocalhost%3A4200%2Fauth%2Fcallback''\<rparr>]
   \<and> occurrences CHR ''&'' ''client_id=1234&client_secret=s3cret&grant_type=authorization_code&code=valid+123&redirect_uri=http%3A%2F%2Flocalhost%3A4200%2Fauth%2Fcallback'' = 4
   \<and> occurrences CHR ''='' ''client_id=1234&client_secret=s3cret&grant_type=authorization_code&code=valid+123&redirect_uri=http%3A%2F%2Flocalhost%3A4200%2Fauth%2Fcallback'' = 5
   \<and> fst (exchangeCodeForToken example_env
          (provider (Resolved \<lparr>status = 502, json = Inl (SyntaxError ''Unexpected token <'')\<rparr>)
                    unauthorized)
          (JStr ''valid 123'')) = Inl (SyntaxError ''Unexpected token <'')"
proof -
  have enc: "form_encode ''valid 123'' = ''valid+123''" "form_encode ''1234'' = ''1234''"
    "form_encode ''s3cret'' = ''s3cret''"
    "form_encode ''http://localhost:4200/auth/callback''
       = ''http%3A%2F%2Flocalhost%3A4200%2Fauth%2Fcallback''"
    by (simp_all add: form_encode_def form_encode_byte_def form_unreserved_def hex_digit_def
        char_of_eq_iff take_bit_eq_mod)
  let ?fetch = "provider (Resolved \<lparr>status = 502, json = Inl (SyntaxError ''Unexpected token <'')\<rparr>)
                    unauthorized"
  let ?req = "\<lparr>req_url = ''https://discord.com/api/oauth2/token'',
       req_method = ''POST'',
       req_headers = [(''Content-Type'', ''application/x-www-form-urlencoded'')],
       req_body = Some ''client_id=1234&client_secret=s3cret&grant_type=authorization_code&code=valid+123&redirect_uri=http%3A%2F%2Flocalhost%3A4200%2Fauth%2Fcallback''\<rparr>"
  note t = token_request_form [of "JStr ''valid 123''" example_env ?fetch]
  have calls: "snd (exchangeCodeForToken example_env ?fetch (JStr ''valid 123'')) = [?req]"
    using t [THEN conjunct1, rule_format, of "''valid 123''"]
    by (simp add: enc example_env_def env_text_def)
  then have mem: "?req \<in> set (snd (exchangeCodeForToken example_env ?fetch (JStr ''valid 123'')))"
    by simp
  have count: "occurrences CHR ''&'' ''client_id=1234&client_secret=s3cret&grant_type=authorization_code&code=valid+123&redirect_uri=http%3A%2F%2Flocalhost%3A4200%2Fauth%2Fcallback'' = 4
      \<and> occurrences CHR ''='' ''client_id=1234&client_secret=s3cret&grant_type=authorization_code&code=valid+123&redirect_uri=http%3A%2F%2Flocalhost%3A4200%2Fauth%2Fcallback'' = 5"
    using t [THEN conjunct2, THEN conjunct2, THEN conjunct1, rule_format, of ?req] mem
    by simp
  have answer: "?fetch ?req = Resolved \<lparr>status = 502, json = Inl (SyntaxError ''Unexpected token <'')\<rparr>"
    by (simp add: provider_def)
  have thrown: "fst (exchangeCodeForToken example_env ?fetch (JStr ''valid 123''))
      = Inl (SyntaxError ''Unexpected token <'')"
    using t [THEN conjunct2, THEN conjunct2, THEN conjunct2, THEN conjunct1, rule_format,
        of ?req "\<lparr>status = 502, json = Inl (SyntaxError ''Unexpected token <'')\<rparr>"
           "SyntaxError ''Unexpected token <''"]
      mem answer
    by simp
  show ?thesis
    using calls count thrown by blast
qed

section \<open>The health check\<close>

subsection \<open>The shape of the timestamp\<close>

lemma is_digit_digit_char: "d < 10 \<Longrightarrow> is_digit (digit_char d)"
  by (simp add: is_digit_def digit_char_def)

lemma nat_to_string_digits: "\<forall>c \<in> set (nat_to_string n). is_digit c"
proof (induction n rule: nat_to_string.induct)
  case (1 n)
  show ?case
  proof (cases "n < 10")
    case True
    then show ?thesis
      by (subst nat_to_string.simps) (simp add: is_digit_digit_char)
  next
    case False
    then show ?thesis
      using 1 by (subst nat_to_string.simps) (simp add: is_digit_digit_char)
  qed
qed

lemma nat_to_string_length: "n < 10 ^ k \<Longrightarrow> 0 < k \<Longrightarrow> length (nat_to_string n) \<le> k"
proof (induction n arbitrary: k rule: nat_to_string.induct)
  case (1 n)
  show ?case
  proof (cases "n < 10")
    case True
    then show ?thesis
      using 1(3) by (subst nat_to_string.simps) simp
  next
    case False
    then obtain j where k: "k = Suc j"
      using 1(3) by (cases k) auto
    have "0 < j"
      using False 1(2) k by (cases j) auto
    moreover have "n div 10 < 10 ^ j"
      using 1(2) k by (simp add: less_mult_imp_div_less mult.commute)
    ultimately have "length (nat_to_string (n div 10)) \<le> j"
      using 1(1) [OF False] by blast
    then show ?thesis
      using False k by (subst nat_to_string.simps) simp
  qed
qed

lemma shape_digits:
  "shape (replicate k CHR ''d'') s = (length s = k \<and> (\<forall>c \<in> set s. is_digit c))"
proof (induction k arbitrary: s)
  case 0
  then show ?case by (cases s) auto
next
  case (Suc k)
  then show ?case by (cases s) auto
qed

lemma shape_length: "shape p s \<Longrightarrow> length p = length s"
  by (induction p s rule: shape.induct) auto

lemma shape_append:
  "length p = length s \<Longrightarrow> shape (p @ q) (s @ t) = (shape p s \<and> shape q t)"
  by (induction p s rule: shape.induct) auto

lemma shape_digits_then:
  "shape (replicate k CHR ''d'') s \<Longrightarrow> shape q t \<Longrightarrow> shape (replicate k CHR ''d'' @ q) (s @ t)"
  using shape_append [of "replicate k CHR ''d''" s q t] shape_length [of "replicate k CHR ''d''" s]
  by simp

lemma shape_sep_then:
  "c \<noteq> CHR ''d'' \<Longrightarrow> shape q t \<Longrightarrow> shape ([c] @ q) ([c] @ t)"
  by simp

lemma pad_shape:
  assumes "n < 10 ^ k" "0 < k"
  shows "shape (replicate k CHR ''d'') (pad k n)"
proof -
  have "is_digit CHR ''0''"
    by (simp add: is_digit_def)
  then show ?thesis
    using nat_to_string_length [OF assms] nat_to_string_digits [of n]
    by (auto simp add: shape_digits pad_def Let_def)
qed

lemma toISOString_shape:
  assumes "valid_date d"
  shows "shape ''dddd-dd-ddTdd:dd:dd.dddZ'' (toISOString d)"
proof -
  have p: "''dddd-dd-ddTdd:dd:dd.dddZ'' =
     replicate 4 CHR ''d'' @ ''-'' @ replicate 2 CHR ''d'' @ ''-'' @ replicate 2 CHR ''d''
     @ ''T'' @ replicate 2 CHR ''d'' @ '':'' @ replicate 2 CHR ''d'' @ '':'' @ replicate 2 CHR ''d''
     @ ''.'' @ replicate 3 CHR ''d'' @ ''Z''"
    by (simp add: numeral_eq_Suc)
  have y: "shape (replicate 4 CHR ''d'') (pad 4 (nat (utc_year d)))"
    using assms by (intro pad_shape) (auto simp: valid_date_def)
  have mo: "shape (replicate 2 CHR ''d'') (pad 2 (utc_month d + 1))"
    using assms by (intro pad_shape) (auto simp: valid_date_def)
  have da: "shape (replicate 2 CHR ''d'') (pad 2 (utc_date d))"
    using assms by (intro pad_shape) (auto simp: valid_date_def)
  have h: "shape (replicate 2 CHR ''d'') (pad 2 (utc_hours d))"
    using assms by (intro pad_shape) (auto simp: valid_date_def)
  have mi: "shape (replicate 2 CHR ''d'') (pad 2 (utc_minutes d))"
    using assms by (intro pad_shape) (auto simp: valid_date_def)
  have se: "shape (replicate 2 CHR ''d'') (pad 2 (utc_seconds d))"
    using assms by (intro pad_shape) (auto simp: valid_date_def)
  have ms: "shape (replicate 3 CHR ''d'') (pad 3 (utc_milliseconds d))"
    using assms by (intro pad_shape) (auto simp: valid_date_def)
  have iso: "toISOString d = pad 4 (nat (utc_year d))
     @ ''-'' @ pad 2 (utc_month d + 1) @ ''-'' @ pad 2 (utc_date d)
     @ ''T'' @ pad 2 (utc_hours d) @ '':'' @ pad 2 (utc_minutes d) @ '':'' @ pad 2 (utc_seconds d)
     @ ''.'' @ pad 3 (utc_milliseconds d) @ ''Z''"
    using assms by (simp add: toISOString_def valid_date_def)
  show ?thesis
    unfolding p iso
    by (intro shape_digits_then shape_sep_then y mo da h mi se ms) simp_all
qed

subsection \<open>The response\<close>

text \<open>
  C8. Whatever \<open>fetch\<close> would answer, the health handler responds with status 200 and
  the body \<open>status: "ok"\<close>, \<open>service: "KvantoBot Web API"\<close> and \<open>timestamp\<close>, the
  current time as \<open>toISOString\<close> prints it, and makes no outbound call. For a date of
  the four-digit years the timestamp has the ISO 8601 shape \<open>YYYY-MM-DDTHH:mm:ss.sssZ\<close>.
\<close>

theorem health_ok:
  "health fetch now =
     (\<lparr>res_status = 200,
       res_body = [(''status'', JStr ''ok''),
                   (''service'', JStr ''KvantoBot Web API''),
                   (''timestamp'', JStr (toISOString now))]\<rparr>, [])
   \<and> (valid_date now \<longrightarrow> shape ''dddd-dd-ddTdd:dd:dd.dddZ'' (toISOString now))"
  using toISOString_shape by (simp add: health_def res_json_def)

text \<open>An instance: 5 January 2024, 09:03:07.042 UTC, with a \<open>fetch\<close> that always rejects.\<close>

theorem health_ok_witness:
  "valid_date example_date
   \<and> health (\<lambda>req. Rejected (TypeError ''fetch failed'')) example_date =
     (\<lparr>res_status = 200,
       res_body = [(''status'', JStr ''ok''),
                   (''service'', JStr ''KvantoBot Web API''),
                   (''timestamp'', JStr ''2024-01-05T09:03:07.042Z'')]\<rparr>, [])
   \<and> shape ''dddd-dd-ddTdd:dd:dd.dddZ'' ''2024-01-05T09:03:07.042Z''"
proof -
  have v: "valid_date example_date"
    by (simp add: valid_date_def example_date_def)
  have t: "toISOString example_date = ''2024-01-05T09:03:07.042Z''"
    by code_simp
  show ?thesis
    using v health_ok [of "\<lambda>req. Rejected (TypeError ''fetch failed'')" example_date]
    by (simp add: t)
qed

section \<open>The error responses of the callback handler\<close>

subsection \<open>A code that is not a string\<close>

text \<open>
  C9. When the \<open>code\<close> of the request is truthy and not a string (a number other than
  zero, \<open>true\<close>, an array, an object), evaluating \<open>code.substring\<close> throws, and the
  handler responds with status 500 and the body of the internal error, not with the 400
  of the validation; it makes no outbound call.
\<close>

theorem non_string_code_is_internal_error:
  assumes "body = JObj kvs" "map_of kvs ''code'' = Some v" "truthy v" "\<forall>s. v \<noteq> JStr s"
  shows "discord_callback e fetch body =
           (\<lparr>res_status = 500,
             res_body = [(''error'', JStr ''Internal server error''),
                         (''details'', JStr ''code.substring is not a function'')]\<rparr>, [])"
  using assms
  by (simp add: discord_callback_def log_code_prefix_other res_json_def internal_server_error_def)

text \<open>An instance: the number 12345 as the code.\<close>

theorem non_string_code_witness:
  "map_of [(''code'', JNum 12345)] ''code'' = Some (JNum 12345) \<and> truthy (JNum 12345)
   \<and> (\<forall>s. JNum 12345 \<noteq> JStr s)
   \<and> discord_callback example_env (provider (token_answer ''tok-abc'') unauthorized)
        (JObj [(''code'', JNum 12345)]) =
       (\<lparr>res_status = 500,
         res_body = [(''error'', JStr ''Internal server error''),
                     (''details'', JStr ''code.substring is not a function'')]\<rparr>, [])"
  using non_string_code_is_internal_error
    [of "JObj [(''code'', JNum 12345)]" "[(''code'', JNum 12345)]" "JNum 12345" example_env
        "provider (token_answer ''tok-abc'') unauthorized"]
  by simp

subsection \<open>What an error response holds\<close>

text \<open>
  C10, as amended. Every response of the callback handler whose status is not 200 has
  no field besides \<open>error\<close> and \<open>details\<close>, so no \<open>access_token\<close> field, and its
  \<open>error\<close> is one of three fixed texts. After a token exchange that succeeded, a failing
  profile read gives a response that is decided by the outcome of the profile call
  alone: had the exchange given another token and the profile call ended the same, the
  response would be the same. The handler puts nothing of the token into the response
  itself; \<open>details\<close> is the message of the exception as it is.
\<close>

theorem error_response_fields:
  "(res_status (fst (discord_callback e fetch body)) \<noteq> 200 \<longrightarrow>
      fst ` set (res_body (fst (discord_callback e fetch body))) \<subseteq> {''error'', ''details''}
      \<and> map_of (res_body (fst (discord_callback e fetch body))) ''access_token'' = None
      \<and> map_of (res_body (fst (discord_callback e fetch body))) ''error''
           \<in> {Some (JStr ''Internal server error''),
              Some (JStr ''Authorization code is required''),
              Some (JStr ''Failed to get access token'')})
   \<and> (body = JObj kvs \<and> map_of kvs ''code'' = Some (JStr c) \<and> c \<noteq> []
      \<and> tokenData e (JStr c) = Inr form
      \<and> fetch (token_request (URLSearchParams_toString form)) = Resolved r \<and> ok r
      \<and> json r = Inr result \<and> get_prop result ''access_token'' = Inr tok \<and> truthy tok
      \<and> to_string tok = Inr t
      \<and> fetch' (token_request (URLSearchParams_toString form)) = Resolved r' \<and> ok r'
      \<and> json r' = Inr result' \<and> get_prop result' ''access_token'' = Inr tok' \<and> truthy tok'
      \<and> to_string tok' = Inr t'
      \<and> fetch (profile_request (''Bearer '' @ t)) = fetch' (profile_request (''Bearer '' @ t'))
      \<and> res_status (fst (discord_callback e fetch body)) \<noteq> 200
      \<longrightarrow> fst (discord_callback e fetch' body) = fst (discord_callback e fetch body))"
proof (intro conjI impI)
  assume "res_status (fst (discord_callback e fetch body)) \<noteq> 200"
  then have *: "(\<exists>err. fst (discord_callback e fetch body) = internal_server_error err)
   \<or> fst (discord_callback e fetch body) =
       res_json 400 [(''error'', JStr ''Authorization code is required'')]
   \<or> fst (discord_callback e fetch body) =
       res_json 400 [(''error'', JStr ''Failed to get access token'')]"
    using callback_cases [of e fetch body] by (auto simp: res_json_def)
  from * show "fst ` set (res_body (fst (discord_callback e fetch body))) \<subseteq> {''error'', ''details''}"
    by (auto simp: res_json_def internal_server_error_def)
  from * show "map_of (res_body (fst (discord_callback e fetch body))) ''access_token'' = None"
    by (auto simp: res_json_def internal_server_error_def)
  from * show "map_of (res_body (fst (discord_callback e fetch body))) ''error''
           \<in> {Some (JStr ''Internal server error''),
              Some (JStr ''Authorization code is required''),
              Some (JStr ''Failed to get access token'')}"
    by (auto simp: res_json_def internal_server_error_def)
next
  assume a: "body = JObj kvs \<and> map_of kvs ''code'' = Some (JStr c) \<and> c \<noteq> []
      \<and> tokenData e (JStr c) = Inr form
      \<and> fetch (token_request (URLSearchParams_toString form)) = Resolved r \<and> ok r
      \<and> json r = Inr result \<and> get_prop result ''access_token'' = Inr tok \<and> truthy tok
      \<and> to_string tok = Inr t
      \<and> fetch' (token_request (URLSearchParams_toString form)) = Resolved r' \<and> ok r'
      \<and> json r' = Inr result' \<and> get_prop result' ''access_token'' = Inr tok' \<and> truthy tok'
      \<and> to_string tok' = Inr t'
      \<and> fetch (profile_request (''Bearer '' @ t)) = fetch' (profile_request (''Bearer '' @ t'))
      \<and> res_status (fst (discord_callback e fetch body)) \<noteq> 200"
  have run: "fst (discord_callback e fetch body) =
     (case fst (fetchDiscordUserInfo fetch tok) of
        Inl err \<Rightarrow> internal_server_error err
      | Inr userInfo \<Rightarrow>
          (case get_prop userInfo ''username'' of
             Inl err \<Rightarrow> internal_server_error err
           | Inr _ \<Rightarrow> res_json 200 [(''access_token'', tok), (''user'', userInfo)]))"
    using a callback_after_token [where fetch = fetch and e = e and body = body] by blast
  have run': "fst (discord_callback e fetch' body) =
     (case fst (fetchDiscordUserInfo fetch' tok') of
        Inl err \<Rightarrow> internal_server_error err
      | Inr userInfo \<Rightarrow>
          (case get_prop userInfo ''username'' of
             Inl err \<Rightarrow> internal_server_error err
           | Inr _ \<Rightarrow> res_json 200 [(''access_token'', tok'), (''user'', userInfo)]))"
    using a callback_after_token [where fetch = fetch' and e = e and body = body] by blast
  have same: "fst (fetchDiscordUserInfo fetch' tok') = fst (fetchDiscordUserInfo fetch tok)"
    using a profile_result_outcome
      [where ?fetch1.0 = fetch' and ?fetch2.0 = fetch and ?tok1.0 = tok' and ?tok2.0 = tok
         and ?t1.0 = t' and ?t2.0 = t]
    by simp
  have "res_status (fst (discord_callback e fetch body)) \<noteq> 200"
    using a by blast
  then show "fst (discord_callback e fetch' body) = fst (discord_callback e fetch body)"
    unfolding run run' same by (auto simp: res_json_def split: sum.splits)
qed

text \<open>
  An instance: the profile endpoint answers 401 after the token \<open>tok-abc\<close>, and after
  the token \<open>tok-xyz\<close>; the two responses are the same.
\<close>

theorem error_response_fields_witness:
  "res_status (fst (discord_callback example_env (provider (token_answer ''tok-abc'') unauthorized)
        (JObj [(''code'', JStr ''valid123'')]))) \<noteq> 200
   \<and> fst ` set (res_body (fst (discord_callback example_env
                                 (provider (token_answer ''tok-abc'') unauthorized)
                                 (JObj [(''code'', JStr ''valid123'')]))))
       \<subseteq> {''error'', ''details''}
   \<and> provider (token_answer ''tok-abc'') unauthorized (profile_request ''Bearer tok-abc'')
       = provider (token_answer ''tok-xyz'') unauthorized (profile_request ''Bearer tok-xyz'')
   \<and> fst (discord_callback example_env (provider (token_answer ''tok-xyz'') unauthorized)
        (JObj [(''code'', JStr ''valid123'')]))
     = fst (discord_callback example_env (provider (token_answer ''tok-abc'') unauthorized)
        (JObj [(''code'', JStr ''valid123'')]))"
proof -
  have s: "res_status (fst (discord_callback example_env
                              (provider (token_answer ''tok-abc'') unauthorized)
                              (JObj [(''code'', JStr ''valid123'')]))) \<noteq> 200"
    by (simp add: run_simps)
  show ?thesis
    using s error_response_fields
      [where body = "JObj [(''code'', JStr ''valid123'')]" and kvs = "[(''code'', JStr ''valid123'')]"
        and c = "''valid123''" and e = example_env and form = "example_form ''valid123''"
        and fetch = "provider (token_answer ''tok-abc'') unauthorized"
        and r = "\<lparr>status = 200, json = Inr (JObj [(''access_token'', JStr ''tok-abc'')])\<rparr>"
        and result = "JObj [(''access_token'', JStr ''tok-abc'')]" and tok = "JStr ''tok-abc''"
        and t = "''tok-abc''"
        and fetch' = "provider (token_answer ''tok-xyz'') unauthorized"
        and r' = "\<lparr>status = 200, json = Inr (JObj [(''access_token'', JStr ''tok-xyz'')])\<rparr>"
        and result' = "JObj [(''access_token'', JStr ''tok-xyz'')]" and tok' = "JStr ''tok-xyz''"
        and t' = "''tok-xyz''"]
    by (simp add: example_tokenData provider_token provider_profile token_answer_def ok_def)
qed

text \<open>
  C10 as stated fails: \<open>details\<close> is \<open>error.message\<close> as it is, so the token is in the
  response when the message repeats it. After the exchange has given \<open>tok-abc\<close>, a 401
  of the profile endpoint whose message names the token, or a rejection of the profile
  call whose message quotes the bearer, gives a response with status 500 whose \<open>details\<close>
  holds \<open>tok-abc\<close>.
\<close>

theorem error_details_repeat_token:
  "get_prop (JObj [(''access_token'', JStr ''tok-abc'')]) ''access_token'' = Inr (JStr ''tok-abc'')
   \<and> discord_callback example_env (provider (token_answer ''tok-abc'') invalid_token)
        (JObj [(''code'', JStr ''valid123'')]) =
       (\<lparr>res_status = 500,
         res_body = [(''error'', JStr ''Internal server error''),
                     (''details'', JStr ''Failed to fetch user info: Invalid token tok-abc'')]\<rparr>,
        [token_request (URLSearchParams_toString (example_form ''valid123'')),
         profile_request ''Bearer tok-abc''])
   \<and> occurs_in ''tok-abc'' ''Failed to fetch user info: Invalid token tok-abc''
   \<and> discord_callback example_env
        (provider (token_answer ''tok-abc'')
                  (Rejected (TypeError ''Request with Bearer tok-abc failed'')))
        (JObj [(''code'', JStr ''valid123'')]) =
       (\<lparr>res_status = 500,
         res_body = [(''error'', JStr ''Internal server error''),
                     (''details'', JStr ''Request with Bearer tok-abc failed'')]\<rparr>,
        [token_request (URLSearchParams_toString (example_form ''valid123'')),
         profile_request ''Bearer tok-abc''])
   \<and> occurs_in ''tok-abc'' ''Request with Bearer tok-abc failed''"
  by (simp add: run_simps invalid_token_def)

end
